theory Spec2Isabelle
  imports Complex_Main
begin

section \<open>Python values and strings\<close>

text \<open>
  The parsers of the repository exchange transactions as Python dictionaries whose values
  are \<open>None\<close>, strings or numbers. Page text is modelled as a list of 8-bit characters and
  is taken to be ASCII: case conversion and the character classes of the regular
  expressions act on ASCII letters, digits and white space only. Python floats are
  idealised as exact rationals; the rounding error of binary floating point is outside
  this model.
\<close>

datatype pyval = PNone | PStr string | PNum rat

type_synonym txn = "string \<rightharpoonup> pyval"

definition dict_get :: "txn \<Rightarrow> string \<Rightarrow> pyval \<Rightarrow> pyval" where
  \<comment> \<open>\<open>d.get(k, default)\<close>\<close>
  "dict_get d k dflt = (case d k of None \<Rightarrow> dflt | Some v \<Rightarrow> v)"

definition mk_txn :: "string \<Rightarrow> string \<Rightarrow> pyval \<Rightarrow> pyval \<Rightarrow> pyval \<Rightarrow> string \<Rightarrow> txn" where
  \<comment> \<open>the dictionary literal every parser appends\<close>
  "mk_txn dt desc deb cre bal led =
     [''date'' \<mapsto> PStr dt, ''description'' \<mapsto> PStr desc, ''debit'' \<mapsto> deb,
      ''credit'' \<mapsto> cre, ''balance'' \<mapsto> bal, ''ledger'' \<mapsto> PStr led]"

definition description_of :: "txn \<Rightarrow> string" where
  \<comment> \<open>\<open>txn['description']\<close> of a transaction that a parser built\<close>
  "description_of r = (case r ''description'' of Some (PStr d) \<Rightarrow> d | _ \<Rightarrow> [])"

definition is_digit :: "char \<Rightarrow> bool" where
  "is_digit c = (c \<in> set ''0123456789'')"

definition upper_letters :: string where
  "upper_letters = ''ABCDEFGHIJKLMNOPQRSTUVWXYZ''"

definition lower_letters :: string where
  "lower_letters = ''abcdefghijklmnopqrstuvwxyz''"

definition is_upper :: "char \<Rightarrow> bool" where
  "is_upper c = (c \<in> set upper_letters)"

definition is_lower :: "char \<Rightarrow> bool" where
  "is_lower c = (c \<in> set lower_letters)"

definition is_space :: "char \<Rightarrow> bool" where
  \<comment> \<open>\<open>str.isspace\<close> and the class \<open>\s\<close> on ASCII: blank, tab, line feed, vertical tab,
      form feed, carriage return and the four separators 0x1C to 0x1F\<close>
  "is_space c = (c \<in> {CHR '' '', CHR 0x09, CHR 0x0A, CHR 0x0B, CHR 0x0C, CHR 0x0D,
                        CHR 0x1C, CHR 0x1D, CHR 0x1E, CHR 0x1F})"

definition is_word :: "char \<Rightarrow> bool" where
  \<comment> \<open>the class \<open>\w\<close> on ASCII\<close>
  "is_word c = (is_digit c \<or> is_upper c \<or> is_lower c \<or> c = CHR ''_'')"

definition lower_char :: "char \<Rightarrow> char" where
  "lower_char c =
     (case map_of (zip upper_letters lower_letters) c of None \<Rightarrow> c | Some d \<Rightarrow> d)"

definition upper_char :: "char \<Rightarrow> char" where
  "upper_char c =
     (case map_of (zip lower_letters upper_letters) c of None \<Rightarrow> c | Some d \<Rightarrow> d)"

definition lower :: "string \<Rightarrow> string" where
  "lower s = map lower_char s"

definition upper :: "string \<Rightarrow> string" where
  "upper s = map upper_char s"

definition strip :: "string \<Rightarrow> string" where
  \<comment> \<open>\<open>str.strip()\<close>\<close>
  "strip s = rev (dropWhile is_space (rev (dropWhile is_space s)))"

fun starts_with :: "string \<Rightarrow> string \<Rightarrow> bool" where
  "starts_with s [] = True"
| "starts_with [] (k # ks) = False"
| "starts_with (c # cs) (k # ks) = (c = k \<and> starts_with cs ks)"

fun contains :: "string \<Rightarrow> string \<Rightarrow> bool" where
  \<comment> \<open>\<open>k in s\<close> on strings\<close>
  "contains [] k = (k = [])"
| "contains (c # cs) k = (starts_with (c # cs) k \<or> contains cs k)"

fun replace_all :: "string \<Rightarrow> string \<Rightarrow> string \<Rightarrow> string" where
  \<comment> \<open>\<open>s.replace(old, new)\<close> for a non-empty \<open>old\<close>\<close>
  "replace_all old new [] = []"
| "replace_all old new (c # cs) =
     (if old \<noteq> [] \<and> starts_with (c # cs) old
      then new @ replace_all old new (drop (length old) (c # cs))
      else c # replace_all old new cs)"

definition rupee :: string where
  \<comment> \<open>the rupee sign U+20B9, as its UTF-8 bytes\<close>
  "rupee = [CHR 0xE2, CHR 0x82, CHR 0xB9]"

subsection \<open>The builtins \<open>float\<close> and \<open>round\<close>\<close>

definition digit_val :: "char \<Rightarrow> nat" where
  "digit_val c = of_char c - 48"

definition digits_val :: "string \<Rightarrow> nat" where
  "digits_val ds = foldl (\<lambda>a c. 10 * a + digit_val c) 0 ds"

definition split_sign :: "string \<Rightarrow> bool \<times> string" where
  "split_sign s =
     (case s of
        [] \<Rightarrow> (False, [])
      | c # cs \<Rightarrow> if c = CHR ''-'' then (True, cs) else if c = CHR ''+'' then (False, cs)
                  else (False, s))"

definition py_exponent :: "string \<Rightarrow> int option" where
  \<comment> \<open>the exponent part of a float literal: nothing, or \<open>e\<close>, a sign and digits\<close>
  "py_exponent s =
     (case s of
        [] \<Rightarrow> Some 0
      | c # cs \<Rightarrow>
          if c = CHR ''e'' \<or> c = CHR ''E''
          then (let (neg, ds) = split_sign cs
                in if ds \<noteq> [] \<and> list_all is_digit ds
                   then Some (if neg then - int (digits_val ds) else int (digits_val ds))
                   else None)
          else None)"

definition py_float :: "string \<Rightarrow> rat option" where
  \<comment> \<open>\<open>float(s)\<close> on a decimal literal: surrounding white space, a sign, digits with an
      optional point and an optional exponent; \<open>None\<close> stands for \<open>ValueError\<close>. The
      literals \<open>inf\<close> and \<open>nan\<close> and digit groups with underscores have no value in this
      model and count as errors.\<close>
  "py_float s0 =
     (let (neg, r) = split_sign (strip s0);
          ip = takeWhile is_digit r;
          r1 = dropWhile is_digit r;
          (fp, r2) = (case r1 of
                        [] \<Rightarrow> ([], [])
                      | c # q \<Rightarrow> if c = CHR ''.''
                                 then (takeWhile is_digit q, dropWhile is_digit q)
                                 else ([], r1))
      in if ip = [] \<and> fp = [] then None
         else (case py_exponent r2 of
                 None \<Rightarrow> None
               | Some e \<Rightarrow>
                   (let m = of_nat (digits_val (ip @ fp)) / 10 ^ length fp;
                        v = (if 0 \<le> e then m * 10 ^ nat e else m / 10 ^ nat (- e))
                    in Some (if neg then - v else v))))"

definition py_round2 :: "rat \<Rightarrow> rat" where
  \<comment> \<open>\<open>round(x, 2)\<close>: to two decimal places, a tie going to the even neighbour\<close>
  "py_round2 x =
     (let y = x * 100; f = \<lfloor>y\<rfloor>; d = y - of_int f
      in of_int (if d < 1 / 2 then f else if 1 / 2 < d then f + 1
                 else if even f then f else f + 1) / 100)"

subsection \<open>Regular expressions\<close>

text \<open>
  The fragment of Python's \<open>re\<close> that the repository uses: character classes, greedy
  bounded repetition of a class, sequence, ordered alternative, the anchors \<open>^\<close>, \<open>$\<close>
  and \<open>\b\<close>, and numbered groups. A pattern runs on the text left of the current
  position (only its last character matters), the text right of it and the groups
  captured so far, and yields every way to match in the order in which a backtracking
  matcher tries them; the head of the list is the match Python reports.
\<close>

datatype rx =
    Cls "char \<Rightarrow> bool"
  | Rep "char \<Rightarrow> bool" nat "nat option"
  | Seq rx rx
  | Alt rx rx
  | Eps
  | Bol
  | Eol
  | Wordb
  | Grp nat rx

type_synonym mstate = "char option \<times> string \<times> (nat \<times> string) list"

definition word_before :: "char option \<Rightarrow> bool" where
  "word_before p = (case p of None \<Rightarrow> False | Some c \<Rightarrow> is_word c)"

definition word_after :: "string \<Rightarrow> bool" where
  "word_after s = (case s of [] \<Rightarrow> False | c # _ \<Rightarrow> is_word c)"

definition advance :: "char option \<Rightarrow> string \<Rightarrow> nat \<Rightarrow> char option" where
  \<comment> \<open>the character left of the position after \<open>j\<close> characters of \<open>s\<close> are consumed\<close>
  "advance prev s j = (if j = 0 then prev else Some (s ! (j - 1)))"

fun rx_run :: "rx \<Rightarrow> mstate \<Rightarrow> mstate list" where
  "rx_run (Cls p) (prev, s, g) =
     (case s of [] \<Rightarrow> [] | c # cs \<Rightarrow> if p c then [(Some c, cs, g)] else [])"
| "rx_run (Rep p m n) (prev, s, g) =
     (let k = length (takeWhile p s);
          hi = (case n of None \<Rightarrow> k | Some b \<Rightarrow> min k b)
      in map (\<lambda>j. (advance prev s j, drop j s, g)) (rev [m..<Suc hi]))"
| "rx_run (Seq a b) st = concat (map (rx_run b) (rx_run a st))"
| "rx_run (Alt a b) st = rx_run a st @ rx_run b st"
| "rx_run Eps st = [st]"
| "rx_run Bol (prev, s, g) = (if prev = None then [(prev, s, g)] else [])"
| "rx_run Eol (prev, s, g) = (if s = [] \<or> s = [CHR 0x0A] then [(prev, s, g)] else [])"
| "rx_run Wordb (prev, s, g) =
     (if word_before prev \<noteq> word_after s then [(prev, s, g)] else [])"
| "rx_run (Grp i a) (prev, s, g) =
     map (\<lambda>(p', s', g'). (p', s', (i, take (length s - length s') s) # g'))
         (rx_run a (prev, s, g))"

fun lit_ci :: "string \<Rightarrow> rx" where
  \<comment> \<open>a literal under \<open>re.IGNORECASE\<close>\<close>
  "lit_ci [] = Eps"
| "lit_ci (c # cs) = Seq (Cls (\<lambda>x. lower_char x = lower_char c)) (lit_ci cs)"

fun seqs :: "rx list \<Rightarrow> rx" where
  "seqs [] = Eps"
| "seqs (r # rs) = Seq r (seqs rs)"

definition opt :: "rx \<Rightarrow> rx" where
  \<comment> \<open>\<open>r?\<close>\<close>
  "opt r = Alt r Eps"

text \<open>A match: where it starts, where it ends, and its groups.\<close>

type_synonym rmatch = "nat \<times> nat \<times> (nat \<times> string) list"

definition match_at :: "rx \<Rightarrow> char option \<Rightarrow> string \<Rightarrow> (nat \<times> (nat \<times> string) list) option" where
  \<comment> \<open>the preferred match at the current position: how many characters, which groups\<close>
  "match_at r prev s =
     (case rx_run r (prev, s, []) of
        [] \<Rightarrow> None
      | (p, s', g) # _ \<Rightarrow> Some (length s - length s', g))"

definition group :: "(nat \<times> string) list \<Rightarrow> nat \<Rightarrow> string option" where
  "group g i = map_of g i"

definition re_match :: "rx \<Rightarrow> string \<Rightarrow> rmatch option" where
  \<comment> \<open>\<open>re.match\<close>: at the start of the string only\<close>
  "re_match r s = (case match_at r None s of None \<Rightarrow> None | Some (n, g) \<Rightarrow> Some (0, n, g))"

function find_iter :: "rx \<Rightarrow> char option \<Rightarrow> string \<Rightarrow> nat \<Rightarrow> rmatch list" where
  "find_iter r prev s i =
     (case match_at r prev s of
        None \<Rightarrow> (case s of [] \<Rightarrow> [] | c # cs \<Rightarrow> find_iter r (Some c) cs (Suc i))
      | Some (n, g) \<Rightarrow>
          (i, i + n, g) #
          (if n = 0 \<or> length s < n
           then (case s of [] \<Rightarrow> [] | c # cs \<Rightarrow> find_iter r (Some c) cs (Suc i))
           else find_iter r (advance prev s n) (drop n s) (i + n)))"
  by pat_completeness auto
termination
  by (relation "measure (\<lambda>(r, prev, s, i). length s)") auto

declare find_iter.simps [simp del]

definition re_finditer :: "rx \<Rightarrow> string \<Rightarrow> rmatch list" where
  \<comment> \<open>the matches from left to right, none overlapping another. The patterns of the
      repository never match the empty string.\<close>
  "re_finditer r s = find_iter r None s 0"

definition re_findall :: "rx \<Rightarrow> string \<Rightarrow> string list" where
  \<comment> \<open>\<open>re.findall\<close> for a pattern with one group: the text of the group in every match\<close>
  "re_findall r s =
     map (\<lambda>(b, e, g). case group g 1 of None \<Rightarrow> [] | Some t \<Rightarrow> t) (re_finditer r s)"

function sub_iter :: "rx \<Rightarrow> string \<Rightarrow> char option \<Rightarrow> string \<Rightarrow> string" where
  "sub_iter r repl prev s =
     (case match_at r prev s of
        None \<Rightarrow> (case s of [] \<Rightarrow> [] | c # cs \<Rightarrow> c # sub_iter r repl (Some c) cs)
      | Some (n, g) \<Rightarrow>
          repl @
          (if n = 0 \<or> length s < n
           then (case s of [] \<Rightarrow> [] | c # cs \<Rightarrow> c # sub_iter r repl (Some c) cs)
           else sub_iter r repl (advance prev s n) (drop n s)))"
  by pat_completeness auto
termination
  by (relation "measure (\<lambda>(r, repl, prev, s). length s)") auto

declare sub_iter.simps [simp del]

definition re_sub :: "rx \<Rightarrow> string \<Rightarrow> string \<Rightarrow> string" where
  \<comment> \<open>\<open>re.sub(r, repl, s)\<close> for a replacement without group references\<close>
  "re_sub r repl s = sub_iter r repl None s"

section \<open>The format detector (\<open>detector.py\<close>)\<close>

definition py_or :: "string option \<Rightarrow> string \<Rightarrow> string" where
  \<comment> \<open>\<open>a or b\<close> for an optional string \<open>a\<close>: \<open>None\<close> and the empty string are false\<close>
  "py_or a b = (case a of None \<Rightarrow> b | Some s \<Rightarrow> if s = [] then b else s)"

definition ifsc_re :: rx where
  \<comment> \<open>\<open>\b([A-Z]{4}0[A-Z0-9]{6})\b\<close>\<close>
  "ifsc_re =
     seqs [Wordb,
           Grp 1 (seqs [Rep is_upper 4 (Some 4), Cls (\<lambda>c. c = CHR ''0''),
                        Rep (\<lambda>c. is_upper c \<or> is_digit c) 6 (Some 6)]),
           Wordb]"

definition ifsc_bank_map :: "(string \<times> string) list" where
  "ifsc_bank_map =
     [(''SBIN'', ''sbi_bank''), (''YESB'', ''yes_bank''), (''SCBL'', ''standard_bank''),
      (''HDFC'', ''hdfc_bank''), (''RATN'', ''rbl_bank''), (''INDB'', ''indusind_credit'')]"

definition ifsc_prefix_of :: "string \<Rightarrow> string" where
  \<comment> \<open>the first four letters of the first routing code of the text, or the empty string\<close>
  "ifsc_prefix_of s =
     (case re_findall ifsc_re s of [] \<Rightarrow> [] | m # _ \<Rightarrow> upper (take 4 m))"

definition detect_bank_type :: "string \<Rightarrow> string option \<Rightarrow> string" where
  "detect_bank_type text first_page_text =
     (let text_lower = lower text;
          fp_lower = lower (py_or first_page_text text)
      in
      \<comment> \<open>Tier 1: credit card statements\<close>
      if contains text_lower ''one credit card'' then ''one_credit''
      else if contains fp_lower ''indusind''
            \<and> (contains fp_lower ''credit card'' \<or> contains fp_lower ''indusind bank'')
            \<and> (contains fp_lower ''previous balance'' \<or> contains fp_lower ''card statement''
                 \<or> contains fp_lower ''purchases'')
      then ''indusind_credit''
      else if contains fp_lower ''credit card statement'' \<and> contains fp_lower ''yes bank''
      then ''yes_credit''
      else if contains fp_lower ''yes bank'' \<and> contains fp_lower ''card number''
            \<and> contains fp_lower ''credit limit''
      then ''yes_credit''
      else if contains fp_lower ''sbi card''
            \<and> (contains fp_lower ''credit limit'' \<or> contains fp_lower ''stmt no'')
      then ''sbi_credit''
      else if (contains fp_lower ''xxxx xxxx xxxx'' \<or> contains fp_lower ''stmt no'')
            \<and> contains fp_lower ''sbi'' \<and> contains fp_lower ''credit limit''
      then ''sbi_credit''
      else if contains fp_lower ''neucoins'' \<or> contains fp_lower ''tata neu''
      then ''hdfc_credit''
      else if contains fp_lower ''hdfc bank credit card''
            \<or> (contains fp_lower ''hdfc'' \<and> contains fp_lower ''credit card''
                 \<and> (contains fp_lower ''card no'' \<or> contains fp_lower ''statement date''))
      then ''hdfc_credit''
      else if contains fp_lower ''rbl bank''
            \<and> (contains fp_lower ''credit limit'' \<or> contains fp_lower ''min. amt''
                 \<or> contains fp_lower ''the month gone by''
                 \<or> contains fp_lower ''account summary'')
      then ''rbl_credit''
      else
      \<comment> \<open>Tier 2: the routing code of the first page\<close>
      (let ifsc_prefix = ifsc_prefix_of (py_or first_page_text text) in
       case map_of ifsc_bank_map ifsc_prefix of
         Some bank \<Rightarrow>
           if bank = ''hdfc_bank'' \<and> contains fp_lower ''credit card''
              \<and> contains fp_lower ''credit limit''
           then ''hdfc_credit'' else bank
       | None \<Rightarrow>
      \<comment> \<open>Tier 3: keyword fallback\<close>
      if (contains fp_lower ''state bank'' \<or> contains fp_lower ''sbin'')
         \<and> (contains fp_lower ''account statement'' \<or> contains fp_lower ''txn date''
              \<or> contains fp_lower ''regular sb'')
      then ''sbi_bank''
      else if contains fp_lower ''hdfc''
            \<and> (contains fp_lower ''account statement'' \<or> contains fp_lower ''savings''
                 \<or> contains fp_lower ''current account'')
      then ''hdfc_bank''
      else if (contains fp_lower ''yes bank'' \<or> contains fp_lower ''yesb'')
            \<and> (contains fp_lower ''saving''
                 \<or> contains fp_lower ''transaction details for your account''
                 \<or> contains fp_lower ''statement of account'')
      then ''yes_bank''
      else if contains fp_lower ''rbl bank'' \<and> contains fp_lower ''account''
      then ''rbl_bank''
      else if contains fp_lower ''standard chartered'' then ''standard_bank''
      else if contains fp_lower ''sbi'' \<and> contains fp_lower ''credit limit''
      then ''sbi_credit''
      else if contains fp_lower ''hdfc'' then ''hdfc_bank''
      else if contains fp_lower ''yes bank'' then ''yes_bank''
      else ''unknown''))"

section \<open>The balance reconstructor (\<open>detector.py\<close>)\<close>

fun to_float :: "pyval \<Rightarrow> rat" where
  \<comment> \<open>\<open>_to_float\<close>. For a number \<open>x\<close> the source evaluates \<open>float(str(x))\<close>, which is
      \<open>x\<close> again.\<close>
  "to_float PNone = 0"
| "to_float (PNum x) = x"
| "to_float (PStr s) =
     (if s = [] then 0
      else (case py_float (strip (replace_all ''Rs.'' [] (replace_all rupee []
                     (replace_all '','' [] s)))) of
              None \<Rightarrow> 0
            | Some x \<Rightarrow> x))"

definition balance_blank :: "pyval \<Rightarrow> bool" where
  \<comment> \<open>\<open>v in (None, '', '0', 0)\<close>\<close>
  "balance_blank v = (v = PNone \<or> v = PStr [] \<or> v = PStr ''0'' \<or> v = PNum 0)"

definition has_balance :: "txn list \<Rightarrow> bool" where
  "has_balance transactions =
     list_ex (\<lambda>t. \<not> balance_blank (dict_get t ''balance'' PNone)) transactions"

fun fill_loop :: "rat \<Rightarrow> txn list \<Rightarrow> txn list" where
  \<comment> \<open>the accumulating loop of \<open>_fill_running_balance\<close>; every dictionary of the list is
      a distinct object, as the parsers build them\<close>
  "fill_loop running [] = []"
| "fill_loop running (t # ts) =
     (let debit = to_float (dict_get t ''debit'' (PNum 0));
          credit = to_float (dict_get t ''credit'' (PNum 0));
          running' = running - debit + credit
      in t(''balance'' \<mapsto> PNum (py_round2 running')) # fill_loop running' ts)"

definition fill_running_balance :: "txn list \<Rightarrow> txn list" where
  "fill_running_balance transactions =
     (if has_balance transactions then transactions else fill_loop 0 transactions)"

section \<open>The dispatcher (\<open>detector.py\<close>)\<close>

text \<open>
  The PDF reader is outside the repository. Opening the file and reading its pages either
  raises an exception (\<open>Inl\<close>, with the exception's message) or gives, for every page,
  what \<open>extract_text\<close> returns: a string or \<open>None\<close>. The parsers read the file again;
  \<open>run label\<close> stands for the call of the parser registered under \<open>label\<close> on this file and
  is an exception or a list of transactions.
\<close>

record parse_result =
  bank_type :: string
  transactions :: "txn list"
  account_info :: string

definition parser_map :: "(string \<times> string) list" where
  \<comment> \<open>the label of a format and its display name; the parser itself is \<open>run label\<close>\<close>
  "parser_map =
     [(''sbi_bank'', ''SBI Bank''), (''sbi_credit'', ''SBI Credit Card''),
      (''hdfc_bank'', ''HDFC Bank''), (''hdfc_credit'', ''HDFC Credit Card''),
      (''yes_bank'', ''Yes Bank''), (''yes_credit'', ''Yes Credit Card''),
      (''rbl_bank'', ''RBL Bank''), (''rbl_credit'', ''RBL Credit Card''),
      (''indusind_credit'', ''IndusInd Credit Card''), (''one_credit'', ''One Credit Card''),
      (''standard_bank'', ''Standard Chartered Bank'')]"

definition page_text :: "string option \<Rightarrow> string" where
  \<comment> \<open>\<open>page.extract_text() or ''\<close>\<close>
  "page_text p = (case p of None \<Rightarrow> [] | Some t \<Rightarrow> t)"

definition full_text_of :: "string option list \<Rightarrow> string" where
  \<comment> \<open>the text of the first three pages, a line feed after each\<close>
  "full_text_of pages = concat (map (\<lambda>p. page_text p @ [CHR 0x0A]) (take 3 pages))"

definition first_page_text_of :: "string option list \<Rightarrow> string" where
  "first_page_text_of pages = (case pages of [] \<Rightarrow> [] | p # _ \<Rightarrow> page_text p)"

definition assign_serials :: "txn list \<Rightarrow> txn list" where
  \<comment> \<open>\<open>txn['serial'] = i + 1\<close> over \<open>enumerate(transactions)\<close>\<close>
  "assign_serials ts = map (\<lambda>(i, t). t(''serial'' \<mapsto> PNum (of_nat (i + 1)))) (enumerate 0 ts)"

definition open_error :: "string \<Rightarrow> string" where
  \<comment> \<open>the \<open>except\<close> clause around the reading of the pages\<close>
  "open_error e =
     (if contains (lower e) ''password'' \<or> contains (lower e) ''encrypted''
      then ''This PDF is password-protected. Please provide the password.''
      else e)"

definition detect_and_parse ::
  "string + string option list \<Rightarrow> (string \<Rightarrow> string + txn list) \<Rightarrow> string + parse_result option"
where
  "detect_and_parse pdf run =
     (case pdf of
        Inl e \<Rightarrow> Inl (open_error e)
      | Inr pages \<Rightarrow>
          (let full_text = full_text_of pages;
               first_page_text = first_page_text_of pages
           in if strip full_text = [] then Inr None
              else (let label = detect_bank_type full_text (Some first_page_text)
                    in case map_of parser_map label of
                         None \<Rightarrow> Inr None
                       | Some bank_label \<Rightarrow>
                           (case run label of
                              Inl e \<Rightarrow> Inl e
                            | Inr ts \<Rightarrow>
                                if ts = [] then Inr None
                                else Inr (Some \<lparr>bank_type = bank_label,
                                     transactions = fill_running_balance (assign_serials ts),
                                     account_info = []\<rparr>)))))"

subsection \<open>The specification's words for the detector\<close>





definition label_ok :: "string \<Rightarrow> bool" where
  \<comment> \<open>a label with a parser, or \<open>unknown\<close>\<close>
  "label_ok l = (l = ''unknown'' \<or> map_of parser_map l \<noteq> None)"

definition blank :: "string \<Rightarrow> bool" where
  \<comment> \<open>white space only\<close>
  "blank s = list_all is_space s"

definition no_rows :: "string \<Rightarrow> string + txn list" where
  \<comment> \<open>every parser finds nothing\<close>
  "no_rows label = Inr []"

definition prose_pdf :: "string + string option list" where
  \<comment> \<open>one page of prose with no issuer keyword and no routing code\<close>
  "prose_pdf = Inr [Some ''Dear customer, thank you.'']"

subsection \<open>The specification's words for the balance\<close>

definition numeric_zero :: "pyval \<Rightarrow> bool" where
  \<comment> \<open>a number equal to zero, or a string that reads as the number zero\<close>
  "numeric_zero v =
     (case v of PNone \<Rightarrow> False | PNum x \<Rightarrow> x = 0 | PStr s \<Rightarrow> py_float s = Some 0)"

definition carries_balance :: "txn \<Rightarrow> bool" where
  \<comment> \<open>the record has a non-empty, non-zero balance\<close>
  "carries_balance t =
     (let v = dict_get t ''balance'' PNone
      in v \<noteq> PNone \<and> v \<noteq> PStr [] \<and> \<not> numeric_zero v)"




subsection \<open>Sample statements\<close>



definition partly_balanced :: "txn list" where
  "partly_balanced =
     [mk_txn ''01/04/2024'' ''ATM WDL'' (PNum 100) (PStr []) (PStr []) ''Cash'',
      mk_txn ''02/04/2024'' ''NEFT CR'' (PStr []) (PNum 500) (PNum 400) ''Transfer'']"

section \<open>Column classification in the word-position extractors\<close>

text \<open>
  Coordinates are the reader's numbers, modelled as rationals. A column is named by the
  key of the transaction it fills: \<open>debit\<close> (withdrawal), \<open>credit\<close> (deposit) and
  \<open>balance\<close>.
\<close>

fun min_from :: "('a \<Rightarrow> rat) \<Rightarrow> 'a \<Rightarrow> 'a list \<Rightarrow> 'a" where
  "min_from key best [] = best"
| "min_from key best (x # xs) = min_from key (if key x < key best then x else best) xs"

definition py_min :: "('a \<Rightarrow> rat) \<Rightarrow> 'a \<Rightarrow> 'a list \<Rightarrow> 'a" where
  \<comment> \<open>\<open>min(x :: xs, key=key)\<close>: the first of the least elements\<close>
  "py_min key x xs = min_from key x xs"

subsection \<open>\<open>sbi_bank.py\<close>\<close>

definition COL_TOLERANCE :: rat where
  "COL_TOLERANCE = 15"

definition classify_col :: "rat \<Rightarrow> rat \<Rightarrow> rat \<Rightarrow> rat \<Rightarrow> string option" where
  "classify_col x1 debit_x1 credit_x1 balance_x1 =
     (let best = py_min snd (''debit'', \<bar>x1 - debit_x1\<bar>)
                   [(''credit'', \<bar>x1 - credit_x1\<bar>), (''balance'', \<bar>x1 - balance_x1\<bar>)]
      in if snd best \<le> COL_TOLERANCE then Some (fst best) else None)"

subsection \<open>\<open>rbl_bank.py\<close>\<close>

definition rbl_classify :: "rat \<Rightarrow> string option" where
  \<comment> \<open>the classification written inline in \<open>_process_page_words\<close>\<close>
  "rbl_classify x1 =
     (let withdrawal_x1 = 537; deposit_x1 = 628; balance_x1 = 766; COL_TOL = 25;
          best = py_min snd (''debit'', \<bar>x1 - withdrawal_x1\<bar>)
                   [(''credit'', \<bar>x1 - deposit_x1\<bar>), (''balance'', \<bar>x1 - balance_x1\<bar>)]
      in if snd best \<le> COL_TOL then Some (fst best) else None)"

subsection \<open>\<open>hdfc_bank.py\<close>\<close>

definition WITHDRAWAL_X1 :: rat where
  "WITHDRAWAL_X1 = 470"

definition DEPOSIT_X1 :: rat where
  "DEPOSIT_X1 = 548"

definition BALANCE_X1 :: rat where
  "BALANCE_X1 = 627"

definition COL_TOL :: rat where
  "COL_TOL = 20"

definition hdfc_classify :: "rat \<Rightarrow> string option" where
  \<comment> \<open>the cascade written inline in \<open>parse_hdfc_bank\<close>: balance, then deposit, then
      withdrawal\<close>
  "hdfc_classify x1 =
     (if \<bar>x1 - BALANCE_X1\<bar> < COL_TOL then Some ''balance''
      else if \<bar>x1 - DEPOSIT_X1\<bar> < COL_TOL then Some ''credit''
      else if \<bar>x1 - WITHDRAWAL_X1\<bar> < COL_TOL then Some ''debit''
      else None)"

subsection \<open>The specification's words for the classification\<close>

definition nearest_column ::
  "(rat \<Rightarrow> rat \<Rightarrow> bool) \<Rightarrow> rat \<Rightarrow> rat \<Rightarrow> (string \<times> rat) list \<Rightarrow> string option" where
  \<comment> \<open>the column of the profile whose edge is nearest to \<open>x1\<close>, the column declared
      first when several are equally near, provided the nearest distance passes the
      tolerance test \<open>accept\<close>; no column otherwise\<close>
  "nearest_column accept tol x1 profile =
     (if profile = [] then None
      else (let nearest = Min (set (map (\<lambda>(name, edge). \<bar>x1 - edge\<bar>) profile))
            in if accept nearest tol
               then map_option fst (find (\<lambda>(name, edge). \<bar>x1 - edge\<bar> = nearest) profile)
               else None))"

section \<open>The line-based credit-card extractors: finalizing a candidate\<close>

text \<open>
  A candidate is the dictionary \<open>current_txn\<close> that the line loop of a parser builds. Each
  finalizer either appends one transaction to the list or leaves the list as it is; the
  record functions below compute the transaction that is appended, if any.
\<close>

definition any_in :: "string \<Rightarrow> string list \<Rightarrow> bool" where
  \<comment> \<open>\<open>any(kw in desc for kw in kws)\<close>\<close>
  "any_in desc kws = list_ex (contains desc) kws"

definition ws_re :: rx where
  \<comment> \<open>\<open>\s+\<close>\<close>
  "ws_re = Rep is_space 1 None"

definition collapse_ws :: "string \<Rightarrow> string" where
  \<comment> \<open>\<open>re.sub(r'\s+', ' ', s).strip()\<close>\<close>
  "collapse_ws s = strip (re_sub ws_re '' '' s)"

definition chr_re :: "char \<Rightarrow> rx" where
  "chr_re c = Cls (\<lambda>x. x = c)"

definition spaces0 :: rx where
  \<comment> \<open>\<open>\s*\<close>\<close>
  "spaces0 = Rep is_space 0 None"

record str_candidate =
  c_date :: string
  c_description :: string
  c_amount :: string
  c_dr_cr :: string

record hdfc_candidate =
  h_date :: string
  h_description :: string
  h_amount :: rat
  h_is_credit :: bool

record one_candidate =
  o_date :: string
  o_description :: string
  o_amount :: rat
  o_raw_line :: string

definition append_record :: "txn option \<Rightarrow> txn list \<Rightarrow> txn list" where
  "append_record r txns = (case r of None \<Rightarrow> txns | Some t \<Rightarrow> txns @ [t])"

subsection \<open>\<open>sbi_credit.py\<close>\<close>

definition sbi_credit_ledger :: "string \<Rightarrow> string" where
  "sbi_credit_ledger description =
     (let desc = upper description in
      if any_in desc [''ZOMATO'', ''SWIGGY'', ''FOOD'', ''RESTAURANT'', ''CAFE'', ''PIZZA'',
                      ''BURGER'', ''DOMINOS'', ''STARBUCKS'', ''TACO'', ''BARBEQUE'']
      then ''Food & Dining''
      else if any_in desc [''AMAZON'', ''FLIPKART'', ''MYNTRA'', ''AJIO'', ''MEESHO'']
      then ''Shopping Online''
      else if any_in desc [''NETFLIX'', ''SPOTIFY'', ''HOTSTAR'', ''PRIME VIDEO'', ''YOUTUBE'']
      then ''Entertainment''
      else if any_in desc [''PETROL'', ''DIESEL'', ''FUEL'', ''PETROLEUM'', ''HP '', ''BPCL'',
                           ''IOCL'', ''AUTO FILLS'', ''OIL'', ''BHARAT PETRO'']
      then ''Fuel''
      else if any_in desc [''AIRTEL'', ''JIO'', ''VODAFONE'', ''RECHARGE'', ''ELECTRICITY'',
                           ''WATER'', ''GAS'', ''BROADBAND'', ''BILL PAY'']
      then ''Utilities''
      else if any_in desc [''HOSPITAL'', ''MEDICAL'', ''PHARMACY'', ''CHEMIST'', ''DOCTOR'',
                           ''HEALTH'', ''APOLLO'', ''FORTIS'', ''MEDIC'']
      then ''Medical''
      else if any_in desc [''UBER'', ''OLA'', ''RAPIDO'', ''IRCTC'', ''MAKEMYTRIP'', ''YATRA'',
                           ''AIRLINES'', ''FLIGHT'', ''TRAIN'', ''CAB'', ''TRAVEL'']
      then ''Travel''
      else if any_in desc [''GROCERY'', ''BIGBASKET'', ''BLINKIT'', ''ZEPTO'', ''DMART'',
                           ''SUPERMARKET'', ''GROFERS'', ''NATURE'', ''BASKET'']
      then ''Groceries''
      else if any_in desc [''EMI'', ''LOAN''] then ''EMI/Loan''
      else if any_in desc [''INSURANCE'', ''LIC'', ''POLICY''] then ''Insurance''
      else if any_in desc [''PAYMENT RECEIVED'', ''PAYMENT'', ''REVERSAL'', ''REFUND'']
      then ''Payment/Refund''
      else if any_in desc [''FEE'', ''CHARGE'', ''ANNUAL'', ''SURCHARGE'', ''GST'', ''TAX'',
                           ''SERVICE TAX'']
      then ''Fees & Charges''
      else if any_in desc [''APPAREL'', ''CLOTHING'', ''FASHION'', ''MARKS AND SPENCER'',
                           ''H AND M'', ''ZARA'', ''BATA'', ''JOCKEY'', ''LEVI'']
      then ''Clothing''
      else ''General'')"

definition sbi_ref_re :: rx where
  \<comment> \<open>\<open>\s*-\s*Ref\s*No\s*:\s*\S+\<close>, ignoring case\<close>
  "sbi_ref_re =
     seqs [spaces0, chr_re CHR ''-'', spaces0, lit_ci ''Ref'', spaces0, lit_ci ''No'',
           spaces0, chr_re CHR '':'', spaces0, Rep (\<lambda>c. \<not> is_space c) 1 None]"

definition sbi_credit_record :: "str_candidate \<Rightarrow> txn option" where
  "sbi_credit_record txn =
     (if c_amount txn = [] \<or> c_date txn = [] then None
      else (case py_float (replace_all '','' [] (c_amount txn)) of
              None \<Rightarrow> None
            | Some amount_float \<Rightarrow>
                (let desc = re_sub sbi_ref_re [] (collapse_ws (c_description txn));
                     dr = c_dr_cr txn;
                     (debit, credit) =
                       (if dr = ''CR'' \<or> dr = ''C''
                           \<or> contains (upper desc) ''PAYMENT RECEIVED''
                           \<or> contains (upper desc) ''REVERSAL''
                           \<or> contains (upper desc) ''REFUND''
                        then (PStr [], PNum amount_float)
                        else (PNum amount_float, PStr []))
                 in if amount_float = 0 then None
                    else Some (mk_txn (c_date txn) desc debit credit (PStr [])
                                 (sbi_credit_ledger desc)))))"


subsection \<open>\<open>hdfc_credit.py\<close>\<close>

definition hdfc_credit_ledger :: "string \<Rightarrow> string" where
  "hdfc_credit_ledger description =
     (let desc = upper description in
      if any_in desc [''ZOMATO'', ''SWIGGY'', ''FOOD'', ''RESTAURANT'', ''STARBUCKS'', ''TACO'',
                      ''BARBEQUE'', ''MCDONALDS'', ''KFC'', ''CAFE'', ''DOMINOS'', ''PIZZA'']
      then ''Food & Dining''
      else if any_in desc [''PETROL'', ''DIESEL'', ''FUEL'', ''AUTO FILLS'', ''HP '', ''BPCL'']
      then ''Fuel''
      else if any_in desc [''AMAZON'', ''FLIPKART'', ''MYNTRA'', ''AJIO''] then ''Shopping Online''
      else if any_in desc [''NETFLIX'', ''SPOTIFY'', ''HOTSTAR''] then ''Entertainment''
      else if any_in desc [''BLINKIT'', ''ZEPTO'', ''BIGBASKET'', ''GROCERY'', ''DMART'']
      then ''Groceries''
      else if any_in desc [''H AND M'', ''ZARA'', ''BATA'', ''JOCKEY'', ''MARKS AND SPENCER'',
                           ''CLOTHING'', ''APPAREL'', ''INDIVINITY'', ''BANGLES'']
      then ''Clothing & Accessories''
      else if any_in desc [''FITNESS'', ''GYM''] then ''Health & Fitness''
      else if any_in desc [''SURCHARGE WAIVER'', ''REVERSAL'', ''REFUND''] then ''Adjustment''
      else ''General'')"

definition hdfc_trailing_l_re :: rx where
  \<comment> \<open>\<open>\s*l\s*$\<close>\<close>
  "hdfc_trailing_l_re = seqs [spaces0, chr_re CHR ''l'', spaces0, Eol]"

definition hdfc_leading_plus_re :: rx where
  \<comment> \<open>\<open>^\+\s*\<close>\<close>
  "hdfc_leading_plus_re = seqs [Bol, chr_re CHR ''+'', spaces0]"

definition hdfc_credit_record :: "hdfc_candidate \<Rightarrow> txn option" where
  "hdfc_credit_record txn =
     (let amount = h_amount txn in
      if amount = 0 then None
      else (let desc = re_sub hdfc_leading_plus_re []
                         (re_sub hdfc_trailing_l_re [] (collapse_ws (h_description txn)))
            in if desc = [] then None
               else (let is_credit = h_is_credit txn;
                         is_credit = (if contains (upper desc) ''SURCHARGE WAIVER''
                                         \<or> contains (upper desc) ''REVERSAL''
                                         \<or> contains (upper desc) ''REFUND''
                                      then True else is_credit);
                         is_credit = (if contains (upper desc) ''PAYMENT''
                                         \<and> contains (upper desc) ''RECEIVED''
                                      then True else is_credit);
                         (debit, credit) = (if is_credit then (PStr [], PNum amount)
                                            else (PNum amount, PStr []))
                     in Some (mk_txn (h_date txn) desc debit credit (PStr [])
                                (hdfc_credit_ledger desc)))))"


subsection \<open>\<open>rbl_credit.py\<close>\<close>

definition rbl_credit_ledger :: "string \<Rightarrow> string" where
  "rbl_credit_ledger description =
     (let desc = upper description in
      if any_in desc [''ZOMATO'', ''SWIGGY'', ''FOOD'', ''RESTAURANT''] then ''Food & Dining''
      else if any_in desc [''AMAZON'', ''FLIPKART''] then ''Shopping Online''
      else if any_in desc [''PETROL'', ''FUEL''] then ''Fuel''
      else if any_in desc [''PAYMENT'', ''REVERSAL'', ''REFUND''] then ''Payment/Refund''
      else if any_in desc [''FEE'', ''CHARGE'', ''GST''] then ''Fees & Charges''
      else if any_in desc [''EMI'', ''LOAN''] then ''EMI/Loan''
      else ''General'')"

definition rbl_credit_record :: "str_candidate \<Rightarrow> txn option" where
  "rbl_credit_record txn =
     (if c_amount txn = [] \<or> c_date txn = [] then None
      else (case py_float (replace_all '','' [] (c_amount txn)) of
              None \<Rightarrow> None
            | Some amount_float \<Rightarrow>
                if amount_float = 0 then None
                else (let desc = collapse_ws (c_description txn);
                          (debit, credit) =
                            (if c_dr_cr txn = ''CR'' \<or> contains (upper desc) ''PAYMENT''
                             then (PStr [], PNum amount_float)
                             else (PNum amount_float, PStr []))
                      in Some (mk_txn (c_date txn) desc debit credit (PStr [])
                                 (rbl_credit_ledger desc)))))"


subsection \<open>\<open>indusind_credit.py\<close>\<close>

definition indusind_ledger :: "string \<Rightarrow> string" where
  "indusind_ledger description =
     (let desc = upper description in
      if any_in desc [''RESTAURANT'', ''FOOD'', ''SWEETS'', ''CAFE''] then ''Food & Dining''
      else if any_in desc [''PERSONAL CARE''] then ''Personal Care''
      else if any_in desc [''PAYMENT'', ''REFUND''] then ''Payment/Refund''
      else if any_in desc [''FEE'', ''CHARGE'', ''GST''] then ''Fees & Charges''
      else ''General'')"

definition indusind_mcc_re :: rx where
  \<comment> \<open>\<open>\s+\d{3}\s*$\<close>\<close>
  "indusind_mcc_re = seqs [Rep is_space 1 None, Rep is_digit 3 (Some 3), spaces0, Eol]"

definition indusind_record :: "str_candidate \<Rightarrow> txn option" where
  "indusind_record txn =
     (if c_amount txn = [] \<or> c_date txn = [] then None
      else (case py_float (replace_all '','' [] (c_amount txn)) of
              None \<Rightarrow> None
            | Some amount_float \<Rightarrow>
                if amount_float = 0 then None
                else (let desc = re_sub indusind_mcc_re [] (collapse_ws (c_description txn));
                          (debit, credit) =
                            (if c_dr_cr txn = ''CR'' \<or> contains (upper desc) ''PAYMENT''
                                \<or> contains (upper desc) ''CREDIT''
                             then (PStr [], PNum amount_float)
                             else (PNum amount_float, PStr []))
                      in Some (mk_txn (c_date txn) desc debit credit (PStr [])
                                 (indusind_ledger desc)))))"


subsection \<open>\<open>yes_credit.py\<close>\<close>

definition yes_credit_ledger :: "string \<Rightarrow> string" where
  "yes_credit_ledger description =
     (let desc = upper description in
      if any_in desc [''ZOMATO'', ''SWIGGY'', ''FOOD'', ''RESTAURANT''] then ''Food & Dining''
      else if any_in desc [''AMAZON'', ''FLIPKART'', ''MYNTRA''] then ''Shopping Online''
      else if any_in desc [''PETROL'', ''FUEL'', ''AUTO FILLS''] then ''Fuel''
      else if any_in desc [''BLINKIT'', ''ZEPTO'', ''GROCERY'', ''DMART'', ''BIGBASKET'']
      then ''Groceries''
      else if any_in desc [''NETFLIX'', ''SPOTIFY'', ''HOTSTAR''] then ''Entertainment''
      else if any_in desc [''RECHARGE'', ''AIRTEL'', ''JIO'', ''ELECTRICITY''] then ''Utilities''
      else if any_in desc [''HOSPITAL'', ''MEDICAL'', ''PHARMACY''] then ''Medical''
      else if any_in desc [''UBER'', ''OLA'', ''RAPIDO'', ''CAB''] then ''Transport''
      else if any_in desc [''PAYMENT RECEIVED'', ''PAYMENT'', ''IRIS''] then ''Payment/Refund''
      else if any_in desc [''FEE'', ''CHARGE'', ''GST'', ''SERVICE TAX''] then ''Fees & Charges''
      else if contains desc ''RETAIL OUTLET'' then ''Retail''
      else if contains desc ''SERVICE STATION'' then ''Fuel''
      else ''General'')"

definition yes_ref_re :: rx where
  \<comment> \<open>\<open>\s*-?\s*Ref\s*No\s*:\s*\S+\<close>, ignoring case\<close>
  "yes_ref_re =
     seqs [spaces0, opt (chr_re CHR ''-''), spaces0, lit_ci ''Ref'', spaces0, lit_ci ''No'',
           spaces0, chr_re CHR '':'', spaces0, Rep (\<lambda>c. \<not> is_space c) 1 None]"

definition yes_mcc_re :: rx where
  \<comment> \<open>\<open>\s*\d{3,4}\s*$\<close>\<close>
  "yes_mcc_re = seqs [spaces0, Rep is_digit 3 (Some 4), spaces0, Eol]"

definition yes_credit_record :: "str_candidate \<Rightarrow> txn option" where
  "yes_credit_record txn =
     (if c_amount txn = [] \<or> c_date txn = [] then None
      else (case py_float (replace_all '','' [] (c_amount txn)) of
              None \<Rightarrow> None
            | Some amount_float \<Rightarrow>
                if amount_float = 0 then None
                else (let desc = re_sub yes_mcc_re []
                                   (re_sub yes_ref_re [] (collapse_ws (c_description txn)));
                          (debit, credit) =
                            (if contains (upper desc) ''PAYMENT RECEIVED'' \<or> c_dr_cr txn = ''CR''
                             then (PStr [], PNum amount_float)
                             else (PNum amount_float, PStr []))
                      in Some (mk_txn (c_date txn) desc debit credit (PStr [])
                                 (yes_credit_ledger desc)))))"


subsection \<open>\<open>one_credit.py\<close>\<close>

definition one_credit_ledger :: "string \<Rightarrow> string" where
  "one_credit_ledger description =
     (let desc = upper description in
      if any_in desc [''ZOMATO'', ''SWIGGY'', ''FOOD''] then ''Food & Dining''
      else if any_in desc [''BLINKIT'', ''GROCERY'', ''ZEPTO'', ''BIGBASKET''] then ''Groceries''
      else if any_in desc [''AMAZON'', ''FLIPKART'', ''MYNTRA''] then ''Shopping Online''
      else if any_in desc [''NETFLIX'', ''SPOTIFY''] then ''Entertainment''
      else if any_in desc [''UBER'', ''OLA'', ''RAPIDO''] then ''Transport''
      else if any_in desc [''PAYMENT'', ''REFUND''] then ''Payment/Refund''
      else ''General'')"

function split_last :: "string \<Rightarrow> string \<Rightarrow> string \<Rightarrow> string" where
  \<comment> \<open>\<open>s.split(sep)[-1]\<close> for a non-empty \<open>sep\<close>: the text after the last occurrence of
      \<open>sep\<close>, found from the left; \<open>cur\<close> holds, reversed, the piece read so far\<close>
  "split_last sep cur s =
     (case s of
        [] \<Rightarrow> rev cur
      | c # cs \<Rightarrow>
          if sep \<noteq> [] \<and> starts_with s sep then split_last sep [] (drop (length sep) s)
          else split_last sep (c # cur) cs)"
  by pat_completeness auto
termination
  by (relation "measure (\<lambda>(sep, cur, s). length s)") auto

declare split_last.simps [simp del]

definition one_credit_record :: "one_candidate \<Rightarrow> txn option" where
  "one_credit_record txn =
     (let amount = o_amount txn in
      if amount = 0 then None
      else (let desc = collapse_ws (o_description txn)
            in if desc = [] then None
               else (let raw = o_raw_line txn;
                         is_credit = contains (split_last desc [] raw) ''-'';
                         is_credit = (if any_in (upper desc)
                                           [''REFUND'', ''REVERSAL'', ''CASHBACK'', ''REPAYMENT'']
                                      then True else is_credit);
                         is_credit = (if contains raw ''('' \<and> contains raw '')''
                                      then True else is_credit);
                         (debit, credit) = (if is_credit then (PStr [], PNum amount)
                                            else (PNum amount, PStr []))
                     in Some (mk_txn (o_date txn) desc debit credit (PStr [])
                                (one_credit_ledger desc)))))"


subsection \<open>The specification's words for the emitted records\<close>

definition credit_entry :: "txn \<Rightarrow> bool" where
  \<comment> \<open>credit set to a non-zero amount, debit empty\<close>
  "credit_entry r =
     (r ''debit'' = Some (PStr []) \<and> (\<exists>a. a \<noteq> 0 \<and> r ''credit'' = Some (PNum a)))"

definition debit_entry :: "txn \<Rightarrow> bool" where
  \<comment> \<open>debit set to a non-zero amount, credit empty\<close>
  "debit_entry r =
     (r ''credit'' = Some (PStr []) \<and> (\<exists>a. a \<noteq> 0 \<and> r ''debit'' = Some (PNum a)))"

definition one_sided :: "txn \<Rightarrow> bool" where
  \<comment> \<open>exactly one of debit and credit is filled\<close>
  "one_sided r = (credit_entry r \<or> debit_entry r)"


definition refund_dr :: str_candidate where
  "refund_dr = \<lparr>c_date = ''01/04/2024'', c_description = ''REFUND  AMAZON - Ref No: 123'',
                c_amount = ''1,450.00'', c_dr_cr = ''DR''\<rparr>"





section \<open>The HDFC account extractor (\<open>hdfc_bank.py\<close>)\<close>



definition float_of :: "string \<Rightarrow> rat" where
  \<comment> \<open>\<open>float(s)\<close> for a text that an amount pattern has matched, where it cannot fail\<close>
  "float_of s = (case py_float s of None \<Rightarrow> 0 | Some v \<Rightarrow> v)"





















section \<open>The Standard Chartered table extractor (\<open>standard_bank.py\<close>)\<close>











definition std_opening_record :: "string \<Rightarrow> string \<Rightarrow> string \<Rightarrow> txn" where
  "std_opening_record date_str description balance =
     mk_txn date_str description (PStr []) (PStr []) (PStr balance) ''Opening Balance''"






section \<open>The Yes Bank text extractor (\<open>yes_bank.py\<close>)\<close>

text \<open>
  \<open>parse_yes_bank\<close> hands the text of a page to \<open>_process_yes_text\<close> when the page has no
  table and no transaction has been found yet. The loop over the lines keeps the open
  candidate \<open>current_txn\<close> and the list of transactions.
\<close>

fun split_at :: "char \<Rightarrow> string \<Rightarrow> string \<Rightarrow> string list" where
  \<comment> \<open>\<open>cur\<close> holds, reversed, the piece read so far\<close>
  "split_at sep cur [] = [rev cur]"
| "split_at sep cur (c # cs) =
     (if c = sep then rev cur # split_at sep [] cs else split_at sep (c # cur) cs)"

definition split_lines :: "string \<Rightarrow> string list" where
  \<comment> \<open>\<open>text.split('\n')\<close>\<close>
  "split_lines s = split_at (CHR 0x0A) [] s"

fun replace_first :: "string \<Rightarrow> string \<Rightarrow> string \<Rightarrow> string" where
  \<comment> \<open>\<open>s.replace(old, new, 1)\<close> for a non-empty \<open>old\<close>\<close>
  "replace_first old new [] = []"
| "replace_first old new (c # cs) =
     (if old \<noteq> [] \<and> starts_with (c # cs) old then new @ drop (length old) (c # cs)
      else c # replace_first old new cs)"

definition yes_date_re :: rx where
  \<comment> \<open>\<open>^(\d{1,2}\s+\w{3}\s+\d{4}|\d{1,2}/\d{1,2}/\d{4})\<close>\<close>
  "yes_date_re =
     seqs [Bol,
           Grp 1 (Alt (seqs [Rep is_digit 1 (Some 2), Rep is_space 1 None,
                             Rep is_word 3 (Some 3), Rep is_space 1 None,
                             Rep is_digit 4 (Some 4)])
                      (seqs [Rep is_digit 1 (Some 2), chr_re CHR ''/'',
                             Rep is_digit 1 (Some 2), chr_re CHR ''/'',
                             Rep is_digit 4 (Some 4)]))]"

definition amount_re :: rx where
  \<comment> \<open>\<open>([\d,]+\.\d{2})\<close>\<close>
  "amount_re =
     Grp 1 (seqs [Rep (\<lambda>c. is_digit c \<or> c = CHR '','') 1 None, chr_re CHR ''.'',
                  Rep is_digit 2 (Some 2)])"

definition digits_only_re :: rx where
  \<comment> \<open>\<open>^[\d\s,.]+$\<close>\<close>
  "digits_only_re =
     seqs [Bol, Rep (\<lambda>c. is_digit c \<or> is_space c \<or> c = CHR '','' \<or> c = CHR ''.'') 1 None,
           Eol]"

definition yes_skip_keywords :: "string list" where
  "yes_skip_keywords =
     [''transaction date'', ''value date'', ''cheque no'', ''customer id'',
      ''primary account'', ''nominee'', ''a/c opening'', ''account variant'',
      ''joint holder'', ''opening balance:'', ''total withdrawals'', ''total deposits'',
      ''closing balance:'', ''od limit'', ''please review'', ''mandatory disclaimer'',
      ''transaction codes'', ''reward points'']"

definition is_debit_yes :: "string \<Rightarrow> bool" where
  \<comment> \<open>every path of the source that is not a credit keyword ends in \<open>True\<close>\<close>
  "is_debit_yes description =
     (let desc = upper description in
      if any_in desc [''WITHDRAWAL'', ''DEBIT'', ''PAID'', ''TRANSFER TO'', ''FUNDS TRF TO'',
                      ''PURCHASE'', ''POS'', ''ATM'', ''NACH'']
      then True
      else if any_in desc [''DEPOSIT'', ''CREDIT'', ''RECEIVED'', ''TRANSFER FROM'', ''SALARY'',
                           ''INTEREST'', ''REFUND'', ''REVERSAL'', ''CASHBACK'']
      then False
      else if contains desc ''FROM:'' \<and> contains desc ''TO:'' then True
      else True)"

definition yes_bank_ledger :: "string \<Rightarrow> string" where
  "yes_bank_ledger description =
     (let desc = upper description in
      if any_in desc [''UPI'', ''IMPS'', ''NEFT'', ''RTGS'']
      then (if any_in desc [''ZOMATO'', ''SWIGGY''] then ''Food & Dining''
            else if any_in desc [''ZERODHA'', ''GROWW''] then ''Investment''
            else if any_in desc [''RECHARGE'', ''AIRTEL'', ''JIO'', ''PREPAID'']
            then ''Utilities''
            else if any_in desc [''NETFLIX'', ''SPOTIFY'', ''APPLE''] then ''Entertainment''
            else if any_in desc [''PORTER'', ''CAB'', ''OLA'', ''UBER''] then ''Transport''
            else if any_in desc [''MEDICINE'', ''BLOOD TEST'', ''HOSPITAL''] then ''Medical''
            else if contains desc ''FAMILY'' then ''Family Transfer''
            else if contains desc ''CREDIT CARD'' then ''Credit Card Payment''
            else if contains desc ''JEWELLERY'' then ''Shopping''
            else ''Transfer'')
      else if contains desc ''SALARY'' then ''Salary''
      else if contains desc ''INTEREST'' then ''Interest''
      else if contains desc ''ATM'' \<or> contains desc ''CASH'' then ''Cash''
      else if contains desc ''FUNDS TRF'' then ''Transfer''
      else ''General'')"

definition positive_or_empty :: "rat \<Rightarrow> pyval" where
  \<comment> \<open>\<open>x if x > 0 else ''\<close>\<close>
  "positive_or_empty x = (if 0 < x then PNum x else PStr [])"

definition yes_amounts :: "rat list \<Rightarrow> string \<Rightarrow> pyval \<times> pyval \<times> pyval" where
  \<comment> \<open>debit, credit and balance from the amounts of a dated line\<close>
  "yes_amounts float_amounts desc =
     (let n = length float_amounts in
      if 3 \<le> n
      then (positive_or_empty (float_amounts ! (n - 3)),
            positive_or_empty (float_amounts ! (n - 2)),
            PNum (float_amounts ! (n - 1)))
      else if n = 2
      then (if is_debit_yes desc
            then (PNum (float_amounts ! 0), PStr [], PNum (float_amounts ! 1))
            else (PStr [], PNum (float_amounts ! 0), PNum (float_amounts ! 1)))
      else if n = 1 then (PStr [], PStr [], PNum (float_amounts ! 0))
      else (PStr [], PStr [], PStr []))"

definition after_date :: "string \<Rightarrow> string" where
  \<comment> \<open>the text after a leading date, stripped; the text itself, stripped, without one\<close>
  "after_date s =
     (case re_match yes_date_re s of
        None \<Rightarrow> s
      | Some (b, e, g) \<Rightarrow> strip (drop e s))"

definition yes_dated_line :: "string \<Rightarrow> string \<Rightarrow> txn" where
  "yes_dated_line date_str line =
     (let rest = after_date (after_date line);
          amounts = re_findall amount_re rest;
          desc = collapse_ws (foldl (\<lambda>d amt. replace_first amt [] d) rest amounts);
          float_amounts = map (\<lambda>a. float_of (replace_all '','' [] a)) amounts;
          (debit, credit, balance) = yes_amounts float_amounts desc
      in mk_txn date_str desc debit credit balance (yes_bank_ledger desc))"

definition yes_line :: "txn option \<times> txn list \<Rightarrow> string \<Rightarrow> txn option \<times> txn list" where
  \<comment> \<open>one turn of the loop over the lines\<close>
  "yes_line st raw_line =
     (let (current_txn, txns) = st; line = strip raw_line in
      if line = [] then st
      else if any_in (lower line) yes_skip_keywords then st
      else (case re_match yes_date_re line of
              Some (b, e, g) \<Rightarrow>
                (Some (yes_dated_line (case group g 1 of None \<Rightarrow> [] | Some d \<Rightarrow> d) line),
                 append_record current_txn txns)
            | None \<Rightarrow>
                (case current_txn of
                   None \<Rightarrow> st
                 | Some t \<Rightarrow>
                     (let cleaned = foldl (\<lambda>c amt. strip (replace_all amt [] c)) line
                                      (re_findall amount_re line)
                      in if cleaned \<noteq> [] \<and> re_match digits_only_re cleaned = None
                         then (Some (t(''description'' \<mapsto>
                                       PStr (description_of t @ '' '' @ cleaned))), txns)
                         else st))))"

definition process_yes_text :: "string \<Rightarrow> txn list \<Rightarrow> txn list" where
  "process_yes_text text txns =
     (let (current_txn, txns') = foldl yes_line (None, txns) (split_lines text)
      in append_record current_txn txns')"

definition both_columns_line :: string where
  \<comment> \<open>a dated line with a withdrawal, a deposit and the running balance\<close>
  "both_columns_line = ''01/04/2024 NEFT 100.00 200.00 300.00''"

section \<open>Properties of the balance reconstructor\<close>



lemmas float_eval = rupee_def py_float_def split_sign_def strip_def is_space_def is_digit_def
  py_exponent_def digits_val_def digit_val_def Let_def

lemma py_float_0: "py_float ''0'' = Some 0"
  by (simp add: float_eval)

lemma carries_not_blank:
  "carries_balance t \<Longrightarrow> \<not> balance_blank (dict_get t ''balance'' PNone)"
  by (auto simp: carries_balance_def balance_blank_def numeric_zero_def Let_def py_float_0)





text \<open>
  C5. When at least one record of the list has a non-empty, non-zero balance, the
  reconstructor returns the list as it was: no record is touched.
\<close>

theorem fill_running_balance_noop:
  "list_ex carries_balance ts \<Longrightarrow> fill_running_balance ts = ts"
  by (auto simp: fill_running_balance_def has_balance_def list_ex_iff dest: carries_not_blank)

theorem fill_running_balance_noop_witness:
  "list_ex carries_balance partly_balanced \<and>
   fill_running_balance partly_balanced = partly_balanced"
proof -
  have h: "list_ex carries_balance partly_balanced"
    by (simp add: carries_balance_def partly_balanced_def mk_txn_def dict_get_def
          numeric_zero_def)
  from h fill_running_balance_noop [OF h] show ?thesis by simp
qed

section \<open>Properties of the detector and the dispatcher\<close>

lemmas str_eval = lower_def lower_char_def upper_def upper_char_def upper_letters_def
  lower_letters_def strip_def

lemmas rx_eval = match_at_def re_match_def re_finditer_def re_findall_def
  re_sub_def group_def word_before_def word_after_def advance_def opt_def is_word_def
  is_upper_def is_lower_def is_digit_def is_space_def upper_letters_def lower_letters_def
  Let_def find_iter.simps sub_iter.simps






lemma label_ok_if: "(c \<Longrightarrow> label_ok a) \<Longrightarrow> (\<not> c \<Longrightarrow> label_ok b) \<Longrightarrow> label_ok (if c then a else b)"
  by simp

lemma label_ok_consts:
  "label_ok ''one_credit''" "label_ok ''indusind_credit''" "label_ok ''yes_credit''"
  "label_ok ''sbi_credit''" "label_ok ''hdfc_credit''" "label_ok ''rbl_credit''"
  "label_ok ''sbi_bank''" "label_ok ''hdfc_bank''" "label_ok ''yes_bank''"
  "label_ok ''rbl_bank''" "label_ok ''standard_bank''" "label_ok ''unknown''"
  by (simp_all add: label_ok_def parser_map_def)

lemma label_ok_table: "map_of ifsc_bank_map p = Some b \<Longrightarrow> label_ok b"
  by (drule map_of_SomeD) (auto simp: ifsc_bank_map_def label_ok_consts)

lemma detect_bank_type_label_ok: "label_ok (detect_bank_type t f)"
  unfolding detect_bank_type_def Let_def
  apply (intro label_ok_if label_ok_consts)
  apply (split option.split)
  apply (intro conjI impI allI label_ok_if label_ok_consts)
  apply (erule label_ok_table)
  done


lemma strip_empty_blank: "strip s = [] \<Longrightarrow> blank s"
proof -
  assume "strip s = []"
  then have "dropWhile is_space (rev (dropWhile is_space s)) = []"
    by (simp add: strip_def)
  then have "\<forall>c \<in> set (dropWhile is_space s). is_space c"
    by (simp add: dropWhile_eq_Nil_conv)
  moreover have "dropWhile is_space s \<noteq> [] \<Longrightarrow> \<not> is_space (hd (dropWhile is_space s))"
    by (rule hd_dropWhile)
  ultimately have "dropWhile is_space s = []"
    by (cases "dropWhile is_space s") auto
  then show ?thesis
    by (simp add: blank_def dropWhile_eq_Nil_conv list_all_iff)
qed

lemma blank_strip_empty: "blank s \<Longrightarrow> strip s = []"
proof -
  assume "blank s"
  then have "dropWhile is_space s = []"
    by (simp add: blank_def list_all_iff)
  then show ?thesis by (simp only: strip_def rev.simps dropWhile.simps)
qed

lemma contains_hd: "contains s (k # ks) \<Longrightarrow> k \<in> set s"
  by (induction s) auto

lemma lower_char_space: "is_space c \<Longrightarrow> lower_char c = c"
proof -
  assume "is_space c"
  then have "c \<notin> set upper_letters"
    by (auto simp: is_space_def upper_letters_def)
  moreover have "length upper_letters = length lower_letters"
    by (simp add: upper_letters_def lower_letters_def)
  ultimately have "map_of (zip upper_letters lower_letters) c = None"
    by (simp add: map_of_zip_is_None)
  then show ?thesis by (simp only: lower_char_def option.case)
qed

lemma blank_lower: "blank s \<Longrightarrow> blank (lower s)"
  by (simp add: blank_def lower_def list_all_iff lower_char_space)

lemma blank_not_contains: "blank s \<Longrightarrow> \<not> is_space k \<Longrightarrow> \<not> contains (lower s) (k # ks)"
  using blank_lower [of s] contains_hd [of "lower s" k ks]
  by (auto simp: blank_def list_all_iff)

lemma match_at_ifsc_none: "takeWhile is_upper s = [] \<Longrightarrow> match_at ifsc_re prev s = None"
  by (simp add: match_at_def ifsc_re_def)

lemma find_iter_ifsc_blank: "blank s \<Longrightarrow> find_iter ifsc_re prev s i = []"
proof (induction s arbitrary: prev i)
  case Nil
  show ?case by (subst find_iter.simps) (simp add: match_at_ifsc_none)
next
  case (Cons c cs)
  then have "is_space c" and b: "blank cs" by (simp_all add: blank_def)
  then have "\<not> is_upper c" by (auto simp: is_space_def is_upper_def upper_letters_def)
  then have "match_at ifsc_re prev (c # cs) = None"
    by (simp add: match_at_ifsc_none)
  with Cons.IH [OF b] show ?case
    by (subst find_iter.simps) simp
qed

lemma ifsc_prefix_of_blank: "blank s \<Longrightarrow> ifsc_prefix_of s = []"
  by (simp add: ifsc_prefix_of_def re_findall_def re_finditer_def find_iter_ifsc_blank)

lemma detect_bank_type_blank:
  assumes "blank t" and "blank f"
  shows "detect_bank_type t (Some f) = ''unknown''"
proof -
  have p: "blank (py_or (Some f) t)"
    using assms by (simp add: py_or_def)
  have sp: "\<not> is_space CHR ''o''" "\<not> is_space CHR ''i''" "\<not> is_space CHR ''c''"
    "\<not> is_space CHR ''y''" "\<not> is_space CHR ''s''" "\<not> is_space CHR ''x''"
    "\<not> is_space CHR ''n''" "\<not> is_space CHR ''t''" "\<not> is_space CHR ''h''"
    "\<not> is_space CHR ''r''" "\<not> is_space CHR ''m''" "\<not> is_space CHR ''a''"
    "\<not> is_space CHR ''p''"
    by (simp_all add: is_space_def)
  have tbl: "map_of ifsc_bank_map [] = None"
    by (simp add: ifsc_bank_map_def)
  show ?thesis
    unfolding detect_bank_type_def Let_def
    by (simp add: blank_not_contains [OF assms(1)] blank_not_contains [OF p] sp
          ifsc_prefix_of_blank [OF p] tbl)
qed

lemma blank_first_page: "blank (full_text_of pages) \<Longrightarrow> blank (first_page_text_of pages)"
  by (cases pages) (auto simp: blank_def full_text_of_def first_page_text_of_def)

lemma all_empty_blank:
  "list_all (\<lambda>p. page_text p = []) (take 3 pages) \<Longrightarrow> blank (full_text_of pages)"
  by (auto simp: blank_def full_text_of_def list_all_iff is_space_def)

lemma unknown_no_parser: "map_of parser_map ''unknown'' = None"
  by (simp add: parser_map_def)

text \<open>
  C7. The dispatcher returns the no-match value, and raises nothing, exactly when the
  pages could be read and the text of every sampled page is empty, or the detector
  answers \<open>unknown\<close>, or the parser of the detected format returns no record; the
  returned value is the same \<open>None\<close> in the three cases.
\<close>

theorem detect_and_parse_no_match:
  "detect_and_parse pdf run = Inr None \<longleftrightarrow>
     (\<exists>pages. pdf = Inr pages \<and>
        (list_all (\<lambda>p. page_text p = []) (take 3 pages)
         \<or> detect_bank_type (full_text_of pages) (Some (first_page_text_of pages)) = ''unknown''
         \<or> run (detect_bank_type (full_text_of pages) (Some (first_page_text_of pages)))
              = Inr []))"
proof (cases pdf)
  case (Inl e)
  then show ?thesis by (simp add: detect_and_parse_def)
next
  case (Inr pages)
  let ?full = "full_text_of pages"
  let ?label = "detect_bank_type ?full (Some (first_page_text_of pages))"
  show ?thesis
  proof (cases "strip ?full = []")
    case True
    then have "blank ?full" by (rule strip_empty_blank)
    then have "?label = ''unknown''"
      by (simp add: detect_bank_type_blank blank_first_page)
    with True Inr show ?thesis by (simp add: detect_and_parse_def)
  next
    case False
    then have ne: "\<not> list_all (\<lambda>p. page_text p = []) (take 3 pages)"
      using all_empty_blank blank_strip_empty by blast
    show ?thesis
    proof (cases "map_of parser_map ?label")
      case None
      with detect_bank_type_label_ok [of ?full "Some (first_page_text_of pages)"]
      have "?label = ''unknown''" by (simp add: label_ok_def)
      with None False Inr show ?thesis by (simp add: detect_and_parse_def Let_def)
    next
      case (Some bank_label)
      then have "?label \<noteq> ''unknown''" by (auto simp: unknown_no_parser)
      with Some False Inr ne show ?thesis
        by (auto simp: detect_and_parse_def Let_def split: sum.splits)
    qed
  qed
qed

theorem detect_and_parse_no_match_witness:
  "detect_bank_type (full_text_of [Some ''Dear customer, thank you.''])
      (Some (first_page_text_of [Some ''Dear customer, thank you.''])) = ''unknown'' \<and>
   detect_and_parse prose_pdf no_rows = Inr None"
proof -
  have u: "detect_bank_type (full_text_of [Some ''Dear customer, thank you.''])
      (Some (first_page_text_of [Some ''Dear customer, thank you.''])) = ''unknown''"
    by (simp add: detect_bank_type_def full_text_of_def first_page_text_of_def page_text_def
          py_or_def ifsc_prefix_of_def ifsc_re_def ifsc_bank_map_def rx_eval str_eval)
  then have "detect_and_parse prose_pdf no_rows = Inr None"
    unfolding detect_and_parse_no_match prose_pdf_def by blast
  with u show ?thesis by simp
qed

section \<open>Properties of the column classification\<close>

lemma rbl_classify_eq: "rbl_classify x1 = (let best = py_min snd (''debit'', \<bar>x1 - 537\<bar>)
                   [(''credit'', \<bar>x1 - 628\<bar>), (''balance'', \<bar>x1 - 766\<bar>)]
      in if snd best \<le> 25 then Some (fst best) else None)"
  by (simp add: rbl_classify_def Let_def)

text \<open>
  C6. In the three word-position extractors an amount token goes to the column whose
  right edge is nearest to the token's right edge, the column declared first winning a
  tie, if the nearest distance is within the tolerance, and to no amount column
  otherwise. The SBI and RBL extractors accept a distance up to the tolerance (15 and 25),
  the HDFC extractor a distance below it (20).
\<close>

theorem column_by_right_edge:
  "classify_col x1 d c b =
     nearest_column (\<le>) 15 x1 [(''debit'', d), (''credit'', c), (''balance'', b)] \<and>
   rbl_classify x1 =
     nearest_column (\<le>) 25 x1 [(''debit'', 537), (''credit'', 628), (''balance'', 766)] \<and>
   hdfc_classify x1 =
     nearest_column (<) 20 x1 [(''debit'', 470), (''credit'', 548), (''balance'', 627)]"
proof -
  have gen: "\<And>tol d c b.
    (let best = py_min snd (''debit'', \<bar>x1 - d\<bar>)
                   [(''credit'', \<bar>x1 - c\<bar>), (''balance'', \<bar>x1 - b\<bar>)]
      in if snd best \<le> tol then Some (fst best) else None) =
    nearest_column (\<le>) tol x1 [(''debit'', d), (''credit'', c), (''balance'', b)]"
  proof -
    fix tol d c b :: rat
    define p where "p = \<bar>x1 - d\<bar>"
    define q where "q = \<bar>x1 - c\<bar>"
    define r where "r = \<bar>x1 - b\<bar>"
    show "(let best = py_min snd (''debit'', \<bar>x1 - d\<bar>)
                   [(''credit'', \<bar>x1 - c\<bar>), (''balance'', \<bar>x1 - b\<bar>)]
      in if snd best \<le> tol then Some (fst best) else None) =
      nearest_column (\<le>) tol x1 [(''debit'', d), (''credit'', c), (''balance'', b)]"
      unfolding nearest_column_def py_min_def Let_def p_def [symmetric]
        q_def [symmetric] r_def [symmetric]
      by (simp add: min_def p_def [symmetric] q_def [symmetric] r_def [symmetric])
  qed
  have sbi: "classify_col x1 d c b =
     nearest_column (\<le>) 15 x1 [(''debit'', d), (''credit'', c), (''balance'', b)]"
    unfolding classify_col_def COL_TOLERANCE_def by (rule gen)
  have rbl: "rbl_classify x1 =
     nearest_column (\<le>) 25 x1 [(''debit'', 537), (''credit'', 628), (''balance'', 766)]"
    unfolding rbl_classify_eq by (rule gen)
  have hdfc: "hdfc_classify x1 =
     nearest_column (<) 20 x1 [(''debit'', 470), (''credit'', 548), (''balance'', 627)]"
    unfolding hdfc_classify_def nearest_column_def BALANCE_X1_def DEPOSIT_X1_def
      WITHDRAWAL_X1_def COL_TOL_def Let_def
    by (auto simp: min_def abs_if)
  from sbi rbl hdfc show ?thesis by simp
qed

section \<open>Properties of the credit-card finalizers\<close>

lemmas fin_eval = any_in_def ws_re_def collapse_ws_def chr_re_def spaces0_def mk_txn_def
  append_record_def





lemma description_of_mk_txn [simp]: "description_of (mk_txn d desc deb cre bal led) = desc"
  by (simp add: description_of_def mk_txn_def)

lemma credit_entry_mk_txn [simp]:
  "credit_entry (mk_txn d desc deb cre bal led) \<longleftrightarrow> deb = PStr [] \<and> (\<exists>a. a \<noteq> 0 \<and> cre = PNum a)"
  by (simp add: credit_entry_def mk_txn_def)

lemma debit_entry_mk_txn [simp]:
  "debit_entry (mk_txn d desc deb cre bal led) \<longleftrightarrow> cre = PStr [] \<and> (\<exists>a. a \<noteq> 0 \<and> deb = PNum a)"
  by (simp add: debit_entry_def mk_txn_def)








lemma sbi_refund_dr:
  "sbi_credit_record refund_dr =
     Some (mk_txn ''01/04/2024'' ''REFUND AMAZON'' (PStr []) (PNum 1450) (PStr [])
             ''Shopping Online'')"
  by (simp add: sbi_credit_record_def refund_dr_def sbi_ref_re_def sbi_credit_ledger_def
        fin_eval rx_eval str_eval float_eval)













section \<open>Properties of the HDFC account extractor\<close>



section \<open>Properties of the table and text extractors\<close>







lemmas yes_eval = process_yes_text_def yes_line_def yes_dated_line_def after_date_def
  yes_amounts_def positive_or_empty_def yes_bank_ledger_def is_debit_yes_def
  yes_skip_keywords_def digits_only_re_def amount_re_def yes_date_re_def split_lines_def
  float_of_def

lemma one_sided_mk_txn [simp]:
  "one_sided (mk_txn d desc deb cre bal led) \<longleftrightarrow>
     (deb = PStr [] \<and> (\<exists>a. a \<noteq> 0 \<and> cre = PNum a)) \<or>
     (cre = PStr [] \<and> (\<exists>a. a \<noteq> 0 \<and> deb = PNum a))"
  by (simp add: one_sided_def)

lemma sbi_one_sided: "sbi_credit_record c = Some r \<Longrightarrow> one_sided r"
  by (auto simp: sbi_credit_record_def Let_def split: if_splits option.splits)

lemma hdfc_one_sided: "hdfc_credit_record h = Some r \<Longrightarrow> one_sided r"
  by (auto simp: hdfc_credit_record_def Let_def split: if_splits option.splits)

lemma rbl_one_sided: "rbl_credit_record c = Some r \<Longrightarrow> one_sided r"
  by (auto simp: rbl_credit_record_def Let_def split: if_splits option.splits)

lemma indusind_one_sided: "indusind_record c = Some r \<Longrightarrow> one_sided r"
  by (auto simp: indusind_record_def Let_def split: if_splits option.splits)

lemma yes_one_sided: "yes_credit_record c = Some r \<Longrightarrow> one_sided r"
  by (auto simp: yes_credit_record_def Let_def split: if_splits option.splits)

lemma one_one_sided: "one_credit_record oc = Some r \<Longrightarrow> one_sided r"
  by (auto simp: one_credit_record_def Let_def split: if_splits option.splits)

text \<open>
  C2 (as amended). Every record that a credit-card extractor emits has exactly one of
  debit and credit filled, with a non-zero amount, and the other empty; the Opening
  Balance record of the Standard Chartered table extractor has both empty.
\<close>

theorem debit_credit_exclusive:
  "(sbi_credit_record c = Some r \<longrightarrow> one_sided r) \<and>
   (hdfc_credit_record h = Some r \<longrightarrow> one_sided r) \<and>
   (rbl_credit_record c = Some r \<longrightarrow> one_sided r) \<and>
   (indusind_record c = Some r \<longrightarrow> one_sided r) \<and>
   (yes_credit_record c = Some r \<longrightarrow> one_sided r) \<and>
   (one_credit_record oc = Some r \<longrightarrow> one_sided r) \<and>
   std_opening_record date_str description balance ''debit'' = Some (PStr []) \<and>
   std_opening_record date_str description balance ''credit'' = Some (PStr []) \<and>
   std_opening_record date_str description balance ''ledger'' = Some (PStr ''Opening Balance'')"
  using sbi_one_sided hdfc_one_sided rbl_one_sided indusind_one_sided yes_one_sided
    one_one_sided
  by (auto simp: std_opening_record_def mk_txn_def)

theorem debit_credit_exclusive_witness:
  "sbi_credit_record refund_dr =
     Some (mk_txn ''01/04/2024'' ''REFUND AMAZON'' (PStr []) (PNum 1450) (PStr [])
             ''Shopping Online'') \<and>
   one_sided (mk_txn ''01/04/2024'' ''REFUND AMAZON'' (PStr []) (PNum 1450) (PStr [])
             ''Shopping Online'')"
  using debit_credit_exclusive [where c = refund_dr] sbi_refund_dr by blast

text \<open>
  C2 (as stated) fails in the account extractors, which fill debit and credit from
  separate amounts of the row: a Yes Bank line with a withdrawal, a deposit and the
  running balance yields a record with both debit and credit filled.
\<close>

theorem yes_both_columns_counterexample:
  "process_yes_text both_columns_line [] =
     [mk_txn ''01/04/2024'' ''NEFT'' (PNum 100) (PNum 200) (PNum 300) ''Transfer'']"
  by (simp add: both_columns_line_def yes_eval fin_eval rx_eval str_eval float_eval)

end
